theory Spec2Isabelle
  imports Complex_Main "HOL-Library.AList"
begin

section \<open>Combat strategies of loop-casual (src/combat.ts)\<close>

text \<open>
  The file \<^verbatim>\<open>src/combat.ts\<close> holds three things: the enum \<^verbatim>\<open>MonsterStrategy\<close>, the
  builder class \<^verbatim>\<open>CombatStrategy\<close> (a table from monsters to strategies and to custom
  macros) and the class \<^verbatim>\<open>BuiltCombatStrategy\<close>, whose constructor assembles one combat
  macro from such a table and whose method \<^verbatim>\<open>prepare_macro\<close> turns one strategy into a
  macro. Classes are records, methods are functions that take the object (\<open>this\<close>) and
  return the updated object, and the two \<^verbatim>\<open>Map\<close>s are association lists in insertion
  order, which is the order in which \<^verbatim>\<open>Map.forEach\<close> visits them.
\<close>

subsection \<open>Values of the game\<close>

type_synonym skill = string
type_synonym item = string

datatype stat = Muscle | Mysticality | Moxie | NoStat

text \<open>
  A monster is compared by identity in the source (it is a \<^verbatim>\<open>Map\<close> key and the argument
  of \<^verbatim>\<open>Macro.if_\<close>); here it is a value with its name and the one field that
  \<^verbatim>\<open>prepare_macro\<close> reads, \<^verbatim>\<open>monster.physicalResistance\<close>.
\<close>

record monster =
  monster_name :: string
  physicalResistance :: int

text \<open>
  The live state of the game that \<^verbatim>\<open>prepare_macro\<close> reads through the kolmafia functions
  \<^verbatim>\<open>monsterDefense\<close>, \<^verbatim>\<open>myBuffedstat\<close>, \<^verbatim>\<open>weaponType\<close> and
  \<^verbatim>\<open>equippedItem($slot`Weapon`)\<close>.
\<close>

record env =
  monsterDefense :: "monster \<Rightarrow> int"
  myBuffedstat :: "stat \<Rightarrow> int"
  weaponType :: "item \<Rightarrow> stat"
  equippedItem_Weapon :: item

subsection \<open>The macro library\<close>

text \<open>
  Modelled from the spec: the class \<^verbatim>\<open>Macro\<close> comes from the library libram and is not
  part of the repository. Section 6 of the specification lists the primitives the code
  relies on: a single fixed action, a best-effort action that is skipped silently when it
  is unusable, repeat, abort, flee, sequential composition, and a conditional branch keyed
  by the identity of the opponent. A macro is the list of its steps; every method of
  \<^verbatim>\<open>Macro\<close> that \<^verbatim>\<open>combat.ts\<close> calls appends to that list: \<^verbatim>\<open>skill\<close>, \<^verbatim>\<open>trySkill\<close>,
  \<^verbatim>\<open>item\<close>, \<^verbatim>\<open>tryItem\<close>, \<^verbatim>\<open>attack\<close>, \<^verbatim>\<open>runaway\<close>, \<^verbatim>\<open>repeat\<close> and \<^verbatim>\<open>abort\<close> append one
  step, \<^verbatim>\<open>step(m)\<close> appends the steps of \<^verbatim>\<open>m\<close>, and \<^verbatim>\<open>if_(monster, m)\<close> appends one
  block that holds the steps of \<^verbatim>\<open>m\<close> and is guarded by the monster. The steps that
  follow a block are its else part: the specification gives the conditional branch an
  implicit \<open>else fall through to the rest of the program\<close>.
\<close>

datatype step =
    MSkill skill
  | MTrySkill skill
  | MItem item
  | MTryItem item
  | MAttack
  | MRunaway
  | MRepeat
  | MAbort
  | MIf monster "step list"

type_synonym Macro = "step list"

definition step :: "Macro \<Rightarrow> Macro \<Rightarrow> Macro" where
  "step this nextSteps = this @ nextSteps"

definition if_then :: "Macro \<Rightarrow> monster \<Rightarrow> Macro \<Rightarrow> Macro" where
  "if_then this condition ifTrue = this @ [MIf condition ifTrue]"

text \<open>The steps that are attempts: executed when usable, skipped otherwise.\<close>

fun best_effort :: "step \<Rightarrow> bool" where
  "best_effort (MTrySkill s) = True"
| "best_effort (MTryItem i) = True"
| "best_effort other = False"

text \<open>
  Modelled from the spec: the turn engine that replays a macro is outside the repository.
  One pass of a macro against an opponent is the list of commands it issues, in order,
  and the way the pass ends: the macro ran to its end, reached \<^verbatim>\<open>repeat\<close>, or reached
  \<^verbatim>\<open>abort\<close>. The blocks are rules evaluated first-match-wins (sections 4.3, 6 and 9 of
  the specification): a block guarded by the opponent is selected and the pass is the
  pass over its steps; a block guarded by another monster is skipped and the pass goes on
  with the steps after it, the else part. An attempt issues its command when the skill or
  item is at hand.
\<close>

record fight =
  opponent :: monster
  hasskill :: "skill \<Rightarrow> bool"
  hascombatitem :: "item \<Rightarrow> bool"

datatype ending = Finished | Repeats | Aborts

type_synonym pass = "step list \<times> ending"

definition emit :: "step \<Rightarrow> pass \<Rightarrow> pass" where
  "emit c p = (c # fst p, snd p)"

fun run :: "fight \<Rightarrow> Macro \<Rightarrow> pass" where
  "run f [] = ([], Finished)"
| "run f (MSkill s # rest) = emit (MSkill s) (run f rest)"
| "run f (MTrySkill s # rest) =
     (if hasskill f s then emit (MSkill s) (run f rest) else run f rest)"
| "run f (MItem i # rest) = emit (MItem i) (run f rest)"
| "run f (MTryItem i # rest) =
     (if hascombatitem f i then emit (MItem i) (run f rest) else run f rest)"
| "run f (MAttack # rest) = emit MAttack (run f rest)"
| "run f (MRunaway # rest) = emit MRunaway (run f rest)"
| "run f (MRepeat # rest) = ([], Repeats)"
| "run f (MAbort # rest) = ([], Aborts)"
| "run f (MIf m body # rest) =
     (if m = opponent f then run f body else run f rest)"

text \<open>Whether the command of an attempt can be issued in a fight.\<close>

definition usable :: "fight \<Rightarrow> step \<Rightarrow> bool" where
  "usable f c = (case c of MSkill s \<Rightarrow> hasskill f s | MItem i \<Rightarrow> hascombatitem f i | _ \<Rightarrow> True)"

subsection \<open>Strategies and resources\<close>

datatype MonsterStrategy = RunAway | Kill | KillHard | Banish | Abort

text \<open>The argument type \<^verbatim>\<open>MonsterStrategy | Macro\<close> of \<^verbatim>\<open>prepare_macro\<close>.\<close>

datatype strategy_or_macro = Strat MonsterStrategy | Mac Macro

text \<open>
  The resources of \<^verbatim>\<open>./resources\<close>, with the fields the constructor reads:
  \<^verbatim>\<open>BanishSource.do\<close> is an item or a skill, \<^verbatim>\<open>RunawaySource.do\<close> is a macro,
  \<^verbatim>\<open>WandererSource.monster\<close> is the wandering monster.
\<close>

datatype item_or_skill = AnItem item | ASkill skill

record BanishSource =
  banish_do :: item_or_skill

record RunawaySource =
  runaway_do :: Macro

record WandererSource =
  wanderer_monster :: monster

record CombatStrategy =
  default_strategy :: MonsterStrategy
  default_macro :: "Macro option"
  strategy :: "(monster \<times> MonsterStrategy) list"
  macros :: "(monster \<times> Macro) list"
  boss :: bool

record BuiltCombatStrategy =
  macro :: Macro
  use_banish :: "Macro option"
  use_runaway :: "Macro option"

subsection \<open>BuiltCombatStrategy\<close>

text \<open>The macro \<^verbatim>\<open>delevel\<close> that \<^verbatim>\<open>prepare_macro\<close> builds on every call.\<close>

definition delevel :: Macro where
  "delevel =
     [MSkill ''Curse of Weaksauce'',
      MTrySkill ''Pocket Crumbs'',
      MTrySkill ''Micrometeorite'',
      MTryItem ''Rain-Doh indigo cup'',
      MTrySkill ''Summon Love Mosquito'',
      MTryItem ''Time-Spinner'']"

text \<open>
  \<^verbatim>\<open>prepare_macro(strategy, monster?)\<close>. The optional monster is an option; the test
  \<^verbatim>\<open>monster && ...\<close> is the case distinction on it. \<^verbatim>\<open>monsterDefense(monster) * 1.25\<close>
  multiplies an integer by 1.25 in double arithmetic, which is exact for the 32-bit
  integers kolmafia returns, so the comparison is the one on the reals.
\<close>

definition prepare_macro ::
  "env \<Rightarrow> BuiltCombatStrategy \<Rightarrow> strategy_or_macro \<Rightarrow> monster option \<Rightarrow> Macro" where
  "prepare_macro e this strategy_arg mon =
     (case strategy_arg of
        Mac m \<Rightarrow> m
      | Strat given \<Rightarrow>
          (let strat =
                 (if given = Kill \<and>
                     (case mon of
                        None \<Rightarrow> False
                      | Some m \<Rightarrow>
                          real_of_int (monsterDefense e m) * 1.25
                            > real_of_int (myBuffedstat e (weaponType e (equippedItem_Weapon e))))
                  then KillHard else given)
           in case strat of
                RunAway \<Rightarrow>
                  (case use_runaway this of
                     None \<Rightarrow> [MRunaway, MSkill ''Saucestorm'', MAttack, MRepeat]
                   | Some r \<Rightarrow> r)
              | Kill \<Rightarrow>
                  (if (case mon of None \<Rightarrow> False | Some m \<Rightarrow> physicalResistance m \<ge> 70)
                   then delevel @ [MSkill ''Saucegeyser'', MRepeat]
                   else delevel @ [MAttack, MRepeat])
              | KillHard \<Rightarrow>
                  (if (case mon of None \<Rightarrow> False | Some m \<Rightarrow> physicalResistance m \<ge> 70)
                      \<or> weaponType e (equippedItem_Weapon e) \<noteq> Muscle
                   then delevel @ [MSkill ''Saucegeyser'', MRepeat]
                   else delevel @ [MSkill ''Lunging Thrust-Smack'', MRepeat])
              | Banish \<Rightarrow>
                  (case use_banish this of
                     None \<Rightarrow> [MAbort]
                   | Some b \<Rightarrow> b)
              | Abort \<Rightarrow> [MAbort]))"

text \<open>
  The constructor. Its first three statements (under the comment \<^verbatim>\<open>Setup special macros\<close>) fill the fields
  \<^verbatim>\<open>use_banish\<close> and \<^verbatim>\<open>use_runaway\<close> of the new object, whose macro is empty; they
  are \<open>special_macros\<close>. The three loops run over the wanderers, over \<^verbatim>\<open>abstract.macros\<close> and
  over \<^verbatim>\<open>abstract.strategy\<close>, in this order, and each turn appends one guarded block to
  \<^verbatim>\<open>this.macro\<close>; the default macro, when there is one, and the macro of the default
  strategy are appended after them.
\<close>

definition special_macros :: "BanishSource option \<Rightarrow> RunawaySource option \<Rightarrow> BuiltCombatStrategy" where
  "special_macros banish_arg runaway_arg =
     \<lparr> macro = [],
       use_banish =
         (case banish_arg of
            None \<Rightarrow> None
          | Some b \<Rightarrow>
              (case banish_do b of
                 AnItem i \<Rightarrow> Some [MItem i]
               | ASkill s \<Rightarrow> Some [MSkill s])),
       use_runaway =
         (case runaway_arg of None \<Rightarrow> None | Some r \<Rightarrow> Some (runaway_do r)) \<rparr>"

definition new_BuiltCombatStrategy ::
  "env \<Rightarrow> CombatStrategy \<Rightarrow> WandererSource list \<Rightarrow> BanishSource option
     \<Rightarrow> RunawaySource option \<Rightarrow> BuiltCombatStrategy" where
  "new_BuiltCombatStrategy e abstract wanderers banish_arg runaway_arg =
     (let this0 = special_macros banish_arg runaway_arg;
          this1 =
            fold (\<lambda>wanderer this.
                    this\<lparr>macro := if_then (macro this) (wanderer_monster wanderer)
                                     (prepare_macro e this (Strat KillHard) None)\<rparr>)
                 wanderers this0;
          this2 =
            fold (\<lambda>(key, value) this. this\<lparr>macro := if_then (macro this) key value\<rparr>)
                 (macros abstract) this1;
          this3 =
            fold (\<lambda>(mon, strat) this.
                    this\<lparr>macro := if_then (macro this) mon
                                     (prepare_macro e this (Strat strat) (Some mon))\<rparr>)
                 (strategy abstract) this2;
          this4 =
            (case default_macro abstract of
               None \<Rightarrow> this3
             | Some d \<Rightarrow> this3\<lparr>macro := step (macro this3) d\<rparr>)
      in this4\<lparr>macro := step (macro this4)
                            (prepare_macro e this4 (Strat (default_strategy abstract)) None)\<rparr>)"

definition handle_monster ::
  "env \<Rightarrow> monster \<Rightarrow> strategy_or_macro \<Rightarrow> BuiltCombatStrategy \<Rightarrow> BuiltCombatStrategy" where
  "handle_monster e mon strategy_arg this =
     this\<lparr>macro := step (if_then [] mon (prepare_macro e this strategy_arg (Some mon)))
                        (macro this)\<rparr>"

subsection \<open>CombatStrategy\<close>

definition new_CombatStrategy :: "bool option \<Rightarrow> CombatStrategy" where
  "new_CombatStrategy boss_arg =
     \<lparr> default_strategy = RunAway,
       default_macro = None,
       strategy = [],
       macros = [],
       boss = (case boss_arg of None \<Rightarrow> False | Some b \<Rightarrow> b) \<rparr>"

text \<open>
  \<^verbatim>\<open>Map.set\<close> is \<^const>\<open>AList.update\<close>: a key that is present keeps its place and takes
  the new value, a new key goes to the end.
\<close>

definition apply_cs :: "MonsterStrategy \<Rightarrow> monster list \<Rightarrow> CombatStrategy \<Rightarrow> CombatStrategy" where
  "apply_cs strat monsters this =
     fold (\<lambda>mon t. t\<lparr>strategy := AList.update mon strat (strategy t)\<rparr>) monsters
       (if monsters = [] then this\<lparr>default_strategy := strat\<rparr> else this)"

definition kill :: "monster list \<Rightarrow> CombatStrategy \<Rightarrow> CombatStrategy" where
  "kill monsters this = apply_cs Kill monsters this"

definition killHard :: "monster list \<Rightarrow> CombatStrategy \<Rightarrow> CombatStrategy" where
  "killHard monsters this = apply_cs KillHard monsters this"

text \<open>
  \<^verbatim>\<open>banish\<close> throws a string when it is given no monster. The result is the thrown value,
  if any, and the table after the call.
\<close>

datatype error = Thrown string

definition banish :: "monster list \<Rightarrow> CombatStrategy \<Rightarrow> error option \<times> CombatStrategy" where
  "banish monsters this =
     (if monsters = [] then (Some (Thrown ''Must specify list of monsters to banish''), this)
      else (None, apply_cs Banish monsters this))"

definition flee :: "monster list \<Rightarrow> CombatStrategy \<Rightarrow> CombatStrategy" where
  "flee monsters this = apply_cs RunAway monsters this"

definition abort :: "monster list \<Rightarrow> CombatStrategy \<Rightarrow> CombatStrategy" where
  "abort monsters this = apply_cs Abort monsters this"

definition macro_cs :: "Macro \<Rightarrow> monster list \<Rightarrow> CombatStrategy \<Rightarrow> CombatStrategy" where
  "macro_cs m monsters this =
     fold (\<lambda>mon t. t\<lparr>macros := AList.update mon m (macros t)\<rparr>) monsters
       (if monsters = [] then this\<lparr>default_macro := Some m\<rparr> else this)"

definition item_cs :: "item \<Rightarrow> monster list \<Rightarrow> CombatStrategy \<Rightarrow> CombatStrategy" where
  "item_cs i monsters this = macro_cs [MItem i] monsters this"

definition can :: "MonsterStrategy \<Rightarrow> CombatStrategy \<Rightarrow> bool" where
  "can do_this this =
     (if do_this = default_strategy this then True
      else List.member (map snd (strategy this)) do_this)"

definition where_cs :: "MonsterStrategy \<Rightarrow> CombatStrategy \<Rightarrow> monster list" where
  "where_cs do_this this =
     filter (\<lambda>key. map_of (strategy this) key = Some do_this) (map fst (strategy this))"

text \<open>The keys of a \<^verbatim>\<open>Map\<close> are unique; the tables of the program keep it so.\<close>

definition unique_keys :: "CombatStrategy \<Rightarrow> bool" where
  "unique_keys this =
     (distinct (map fst (strategy this)) \<and> distinct (map fst (macros this)))"

subsection \<open>Concrete inputs\<close>

text \<open>
  Monsters, game states and fights at which the theorems below are evaluated: a monster
  without physical resistance and one with full resistance; a game state with a muscle
  weapon and a buffed stat of 200 against a monster defense of 100, the same with a buffed
  stat of 110 (so that 100 * 1.25 exceeds it), and the same with a mysticality weapon.
\<close>

definition goblin :: monster where
  "goblin = \<lparr> monster_name = ''Knob Goblin'', physicalResistance = 0 \<rparr>"

definition ghost :: monster where
  "ghost = \<lparr> monster_name = ''ghost'', physicalResistance = 100 \<rparr>"

definition env_club :: env where
  "env_club =
     \<lparr> monsterDefense = (\<lambda>m. 100),
       myBuffedstat = (\<lambda>s. 200),
       weaponType = (\<lambda>i. Muscle),
       equippedItem_Weapon = ''seal-clubbing club'' \<rparr>"

definition env_weak :: env where
  "env_weak = env_club \<lparr> myBuffedstat := (\<lambda>s. 110) \<rparr>"

definition env_staff :: env where
  "env_staff = env_club \<lparr> weaponType := (\<lambda>i. Mysticality) \<rparr>"

definition no_resources :: BuiltCombatStrategy where
  "no_resources = special_macros None None"

text \<open>A fight in which no skill and no combat item is at hand.\<close>

definition bare_fight :: "monster \<Rightarrow> fight" where
  "bare_fight m = \<lparr> opponent = m, hasskill = (\<lambda>s. False), hascombatitem = (\<lambda>i. False) \<rparr>"

text \<open>A fight in which one skill and one item of the debuff prefix are at hand.\<close>

definition crumbs_fight :: "monster \<Rightarrow> fight" where
  "crumbs_fight m =
     \<lparr> opponent = m,
       hasskill = (\<lambda>s. s = ''Pocket Crumbs''),
       hascombatitem = (\<lambda>i. i = ''Time-Spinner'') \<rparr>"

text \<open>Two banish resources, two wanderers and the table of \<^verbatim>\<open>new CombatStrategy()\<close>.\<close>

definition banish_louder :: BanishSource where
  "banish_louder = \<lparr> banish_do = AnItem ''Louder Than Bomb'' \<rparr>"

definition banish_snokebomb :: BanishSource where
  "banish_snokebomb = \<lparr> banish_do = ASkill ''Snokebomb'' \<rparr>"

definition wander_ghost :: WandererSource where
  "wander_ghost = \<lparr> wanderer_monster = ghost \<rparr>"

definition wander_goblin :: WandererSource where
  "wander_goblin = \<lparr> wanderer_monster = goblin \<rparr>"

definition fresh :: CombatStrategy where
  "fresh = new_CombatStrategy None"

text \<open>
  Two tables built with the methods of \<^verbatim>\<open>CombatStrategy\<close>, and a strategy object
  built from one of them:
  \<^verbatim>\<open>new CombatStrategy().abort().banish(goblin).kill(goblin, ghost)\<close>,
  \<^verbatim>\<open>new CombatStrategy().item(seal tooth, goblin).kill(goblin)\<close>, and the object the
  constructor builds from the second one while the goblin is a wanderer.
\<close>

definition table_kills :: CombatStrategy where
  "table_kills = kill [goblin, ghost] (snd (banish [goblin] (abort [] fresh)))"

definition table_tooth :: CombatStrategy where
  "table_tooth = kill [goblin] (item_cs ''seal tooth'' [goblin] fresh)"

definition built_tooth :: BuiltCombatStrategy where
  "built_tooth = new_BuiltCombatStrategy env_club table_tooth [wander_goblin] None None"

section \<open>Properties\<close>

subsection \<open>The assembled macro\<close>

text \<open>
  \<^verbatim>\<open>prepare_macro\<close> reads \<^verbatim>\<open>this.use_banish\<close> and \<^verbatim>\<open>this.use_runaway\<close> only, so the
  macro under construction does not influence it.
\<close>

lemma prepare_macro_cong:
  "use_banish t = use_banish t' \<Longrightarrow> use_runaway t = use_runaway t' \<Longrightarrow>
   prepare_macro e t sa mon = prepare_macro e t' sa mon"
  by (simp only: prepare_macro_def)

lemma prepare_macro_update [simp]:
  "prepare_macro e (t\<lparr>macro := x\<rparr>) sa mo = prepare_macro e t sa mo"
  by (rule prepare_macro_cong) simp_all

lemma fold_wanderers:
  "fold (\<lambda>wanderer this.
           this\<lparr>macro := if_then (macro this) (wanderer_monster wanderer)
                            (prepare_macro e this (Strat KillHard) None)\<rparr>) ws t
   = t\<lparr>macro := macro t @
        map (\<lambda>w. MIf (wanderer_monster w) (prepare_macro e t (Strat KillHard) None)) ws\<rparr>"
  unfolding if_then_def
proof (induction ws arbitrary: t)
  case Nil
  show ?case by simp
next
  case (Cons w ws)
  show ?case
    by (simp add: Cons.IH)
qed

lemma fold_macros:
  "fold (\<lambda>(key, value) this. this\<lparr>macro := if_then (macro this) key value\<rparr>) al t
   = t\<lparr>macro := macro t @ map (\<lambda>(key, value). MIf key value) al\<rparr>"
  unfolding if_then_def
proof (induction al arbitrary: t)
  case Nil
  show ?case by simp
next
  case (Cons p al)
  show ?case
    by (cases p) (simp add: Cons.IH)
qed

lemma fold_strategy:
  "fold (\<lambda>(mon, strat) this.
           this\<lparr>macro := if_then (macro this) mon
                            (prepare_macro e this (Strat strat) (Some mon))\<rparr>) al t
   = t\<lparr>macro := macro t @
        map (\<lambda>(mon, strat). MIf mon (prepare_macro e t (Strat strat) (Some mon))) al\<rparr>"
  unfolding if_then_def
proof (induction al arbitrary: t)
  case Nil
  show ?case by simp
next
  case (Cons p al)
  show ?case
    by (cases p) (simp add: Cons.IH)
qed

lemma special_macros_macro [simp]: "macro (special_macros b r) = []"
  by (simp add: special_macros_def)

text \<open>
  The macro the constructor leaves in \<^verbatim>\<open>this.macro\<close>: the blocks of the wanderers, the
  blocks of \<^verbatim>\<open>abstract.macros\<close>, the blocks of \<^verbatim>\<open>abstract.strategy\<close>, the default
  macro and the macro of the default strategy, one after the other.
\<close>

lemma built_macro:
  "macro (new_BuiltCombatStrategy e a ws b r) =
     map (\<lambda>w. MIf (wanderer_monster w)
                (prepare_macro e (special_macros b r) (Strat KillHard) None)) ws
   @ map (\<lambda>(key, value). MIf key value) (macros a)
   @ map (\<lambda>(mon, strat).
            MIf mon (prepare_macro e (special_macros b r) (Strat strat) (Some mon))) (strategy a)
   @ (case default_macro a of None \<Rightarrow> [] | Some d \<Rightarrow> d)
   @ prepare_macro e (special_macros b r) (Strat (default_strategy a)) None"
  unfolding new_BuiltCombatStrategy_def Let_def fold_wanderers fold_macros fold_strategy
  by (simp add: step_def split: option.split)

lemma built_use_banish:
  "use_banish (new_BuiltCombatStrategy e a ws b r) = use_banish (special_macros b r)"
  unfolding new_BuiltCombatStrategy_def Let_def fold_wanderers fold_macros fold_strategy
  by (simp split: option.split)

lemma built_use_runaway:
  "use_runaway (new_BuiltCombatStrategy e a ws b r) = use_runaway (special_macros b r)"
  unfolding new_BuiltCombatStrategy_def Let_def fold_wanderers fold_macros fold_strategy
  by (simp split: option.split)

subsection \<open>Kill and KillHard\<close>

text \<open>
  Claim C3. For every monster and every game state: when the defense of the monster times
  1.25 exceeds the buffed stat of the equipped weapon's type, \<^verbatim>\<open>prepare_macro\<close> returns
  for \<^verbatim>\<open>Kill\<close> the same macro as for \<^verbatim>\<open>KillHard\<close>: the strategy is replaced by
  \<^verbatim>\<open>KillHard\<close> before the finishing move is chosen.
\<close>

theorem C3_kill_escalates:
  assumes "real_of_int (monsterDefense e m) * 1.25
             > real_of_int (myBuffedstat e (weaponType e (equippedItem_Weapon e)))"
  shows "prepare_macro e this (Strat Kill) (Some m)
           = prepare_macro e this (Strat KillHard) (Some m)"
  using assms by (simp add: prepare_macro_def)

theorem C3_kill_escalates_witness:
  "real_of_int (monsterDefense env_weak goblin) * 1.25
     > real_of_int (myBuffedstat env_weak (weaponType env_weak (equippedItem_Weapon env_weak)))
   \<and> prepare_macro env_weak no_resources (Strat Kill) (Some goblin)
       = prepare_macro env_weak no_resources (Strat KillHard) (Some goblin)
   \<and> prepare_macro env_weak no_resources (Strat Kill) (Some goblin)
       = delevel @ [MSkill ''Lunging Thrust-Smack'', MRepeat]"
proof -
  have h: "real_of_int (monsterDefense env_weak goblin) * 1.25
     > real_of_int (myBuffedstat env_weak (weaponType env_weak (equippedItem_Weapon env_weak)))"
    by (simp add: env_weak_def env_club_def)
  have k: "prepare_macro env_weak no_resources (Strat KillHard) (Some goblin)
       = delevel @ [MSkill ''Lunging Thrust-Smack'', MRepeat]"
    by (simp add: prepare_macro_def env_weak_def env_club_def goblin_def)
  show ?thesis
    using h k C3_kill_escalates [OF h, of no_resources] by simp
qed

text \<open>
  Claim C5. For every monster and every game state, the macro of \<^verbatim>\<open>KillHard\<close> is the
  debuff prefix followed by a repeated skill: Saucegeyser when the physical resistance of
  the monster is at least 70 or the type of the equipped weapon is not muscle, Lunging
  Thrust-Smack otherwise. The plain attack does not occur in it.
\<close>

theorem C5_killhard_finish:
  "prepare_macro e this (Strat KillHard) (Some m)
     = delevel @
       [MSkill (if physicalResistance m \<ge> 70 \<or> weaponType e (equippedItem_Weapon e) \<noteq> Muscle
                then ''Saucegeyser'' else ''Lunging Thrust-Smack''),
        MRepeat]
   \<and> MAttack \<notin> set (prepare_macro e this (Strat KillHard) (Some m))"
  by (simp add: prepare_macro_def delevel_def)

theorem C5_killhard_finish_witness:
  "prepare_macro env_club no_resources (Strat KillHard) (Some goblin)
     = delevel @ [MSkill ''Lunging Thrust-Smack'', MRepeat]
   \<and> prepare_macro env_club no_resources (Strat KillHard) (Some ghost)
     = delevel @ [MSkill ''Saucegeyser'', MRepeat]
   \<and> prepare_macro env_staff no_resources (Strat KillHard) (Some goblin)
     = delevel @ [MSkill ''Saucegeyser'', MRepeat]"
  using C5_killhard_finish [of env_club no_resources goblin]
        C5_killhard_finish [of env_club no_resources ghost]
        C5_killhard_finish [of env_staff no_resources goblin]
  by (simp add: env_club_def env_staff_def goblin_def ghost_def)

text \<open>
  Claim C6. For every monster whose physical resistance is at least 70, the macros of
  \<^verbatim>\<open>Kill\<close> and of \<^verbatim>\<open>KillHard\<close> both finish with the repeated Saucegeyser, not with
  the attack. For a monster whose physical resistance is below 70, and whose defense times
  1.25 does not exceed the buffed stat, the macro of \<^verbatim>\<open>Kill\<close> finishes with the repeated
  attack.
\<close>

theorem C6_resistant_monsters:
  "(physicalResistance m \<ge> 70 \<longrightarrow>
      prepare_macro e this (Strat Kill) (Some m) = delevel @ [MSkill ''Saucegeyser'', MRepeat]
    \<and> prepare_macro e this (Strat KillHard) (Some m)
        = delevel @ [MSkill ''Saucegeyser'', MRepeat])
   \<and> (physicalResistance m < 70
        \<and> \<not> real_of_int (monsterDefense e m) * 1.25
              > real_of_int (myBuffedstat e (weaponType e (equippedItem_Weapon e))) \<longrightarrow>
      prepare_macro e this (Strat Kill) (Some m) = delevel @ [MAttack, MRepeat])"
  by (simp add: prepare_macro_def)

theorem C6_resistant_monsters_witness:
  "physicalResistance ghost \<ge> 70
   \<and> prepare_macro env_club no_resources (Strat Kill) (Some ghost)
        = delevel @ [MSkill ''Saucegeyser'', MRepeat]
   \<and> prepare_macro env_weak no_resources (Strat Kill) (Some ghost)
        = delevel @ [MSkill ''Saucegeyser'', MRepeat]
   \<and> prepare_macro env_club no_resources (Strat KillHard) (Some ghost)
        = delevel @ [MSkill ''Saucegeyser'', MRepeat]
   \<and> physicalResistance goblin < 70
   \<and> \<not> real_of_int (monsterDefense env_club goblin) * 1.25
          > real_of_int (myBuffedstat env_club (weaponType env_club (equippedItem_Weapon env_club)))
   \<and> prepare_macro env_club no_resources (Strat Kill) (Some goblin)
        = delevel @ [MAttack, MRepeat]"
  using C6_resistant_monsters [of ghost env_club no_resources]
        C6_resistant_monsters [of ghost env_weak no_resources]
        C6_resistant_monsters [of goblin env_club no_resources]
  by (simp add: env_club_def env_weak_def goblin_def ghost_def)

text \<open>
  Claim C4, as stated: the macros of \<^verbatim>\<open>Kill\<close> and \<^verbatim>\<open>KillHard\<close> begin with exactly five
  attempts, each of them best-effort, before the finishing move. This fails: the macro
  begins with \<^verbatim>\<open>skill Curse of Weaksauce\<close>, which is not an attempt, and six steps come
  before the finishing move. In a fight where no skill and no item is at hand the curse
  is still issued.
\<close>

theorem C4_counterexample:
  "prepare_macro env_club no_resources (Strat Kill) (Some goblin)
     = [MSkill ''Curse of Weaksauce'',
        MTrySkill ''Pocket Crumbs'',
        MTrySkill ''Micrometeorite'',
        MTryItem ''Rain-Doh indigo cup'',
        MTrySkill ''Summon Love Mosquito'',
        MTryItem ''Time-Spinner'',
        MAttack, MRepeat]
   \<and> \<not> best_effort (hd (prepare_macro env_club no_resources (Strat Kill) (Some goblin)))
   \<and> run (bare_fight goblin) (prepare_macro env_club no_resources (Strat Kill) (Some goblin))
       = ([MSkill ''Curse of Weaksauce'', MAttack], Repeats)"
  by (simp add: prepare_macro_def env_club_def goblin_def delevel_def bare_fight_def
        emit_def)

text \<open>
  Claim C4, amended. For every strategy object, optional monster and game state, the macros
  of \<^verbatim>\<open>Kill\<close> and of \<^verbatim>\<open>KillHard\<close> are the six steps of \<^verbatim>\<open>delevel\<close> followed by two
  more steps (the finishing move and \<^verbatim>\<open>repeat\<close>). The first step of \<^verbatim>\<open>delevel\<close> casts
  Curse of Weaksauce and is not best-effort; the five steps after it are best-effort
  attempts in a fixed order. In every fight the prefix issues the curse and then, in
  order and once each, the commands of exactly those attempts that are usable.
\<close>

theorem C4_debuff_prefix:
  "take 6 (prepare_macro e this (Strat Kill) mo) = delevel
   \<and> take 6 (prepare_macro e this (Strat KillHard) mo) = delevel
   \<and> length (prepare_macro e this (Strat Kill) mo) = 8
   \<and> length (prepare_macro e this (Strat KillHard) mo) = 8
   \<and> delevel = MSkill ''Curse of Weaksauce'' # tl delevel
   \<and> length (tl delevel) = 5
   \<and> list_all best_effort (tl delevel)
   \<and> fst (run f (delevel @ rest))
       = MSkill ''Curse of Weaksauce''
         # filter (usable f)
             [MSkill ''Pocket Crumbs'', MSkill ''Micrometeorite'', MItem ''Rain-Doh indigo cup'',
              MSkill ''Summon Love Mosquito'', MItem ''Time-Spinner'']
         @ fst (run f rest)"
  by (simp add: prepare_macro_def delevel_def usable_def emit_def)

theorem C4_debuff_prefix_witness:
  "prepare_macro env_club no_resources (Strat Kill) (Some goblin) = delevel @ [MAttack, MRepeat]
   \<and> fst (run (crumbs_fight goblin) (delevel @ [MAttack, MRepeat]))
       = [MSkill ''Curse of Weaksauce'', MSkill ''Pocket Crumbs'', MItem ''Time-Spinner'', MAttack]"
  using C4_debuff_prefix [of env_club no_resources "Some goblin" "crumbs_fight goblin" "[MAttack, MRepeat]"]
  by (simp add: prepare_macro_def env_club_def goblin_def crumbs_fight_def usable_def emit_def)

subsection \<open>Banish\<close>

text \<open>
  Claim C8. A strategy object built without a banish resource compiles \<^verbatim>\<open>Banish\<close>, for
  every optional monster, to the macro that only aborts; one built with a banish resource
  compiles it to the one-step macro that uses the resource's item or skill. For every
  strategy tag \<^verbatim>\<open>prepare_macro\<close> returns a macro, one of the macros of its switch: the
  function has no failing branch.
\<close>

theorem C8_banish_or_abort:
  "prepare_macro e (new_BuiltCombatStrategy e a ws None r) (Strat Banish) mo = [MAbort]
   \<and> prepare_macro e (new_BuiltCombatStrategy e a ws (Some b) r) (Strat Banish) mo
       = (case banish_do b of AnItem i \<Rightarrow> [MItem i] | ASkill s \<Rightarrow> [MSkill s])
   \<and> prepare_macro e this (Strat s) mo
       \<in> {[MRunaway, MSkill ''Saucestorm'', MAttack, MRepeat],
          delevel @ [MAttack, MRepeat],
          delevel @ [MSkill ''Saucegeyser'', MRepeat],
          delevel @ [MSkill ''Lunging Thrust-Smack'', MRepeat],
          [MAbort]}
         \<union> set_option (use_runaway this) \<union> set_option (use_banish this)"
proof -
  have a: "prepare_macro e (new_BuiltCombatStrategy e a ws None r) (Strat Banish) mo = [MAbort]"
    by (simp add: prepare_macro_def built_use_banish special_macros_def)
  have b: "prepare_macro e (new_BuiltCombatStrategy e a ws (Some b) r) (Strat Banish) mo
       = (case banish_do b of AnItem i \<Rightarrow> [MItem i] | ASkill s \<Rightarrow> [MSkill s])"
    by (simp add: prepare_macro_def built_use_banish special_macros_def split: item_or_skill.split)
  have c: "prepare_macro e this (Strat s) mo
       \<in> {[MRunaway, MSkill ''Saucestorm'', MAttack, MRepeat],
          delevel @ [MAttack, MRepeat],
          delevel @ [MSkill ''Saucegeyser'', MRepeat],
          delevel @ [MSkill ''Lunging Thrust-Smack'', MRepeat],
          [MAbort]}
         \<union> set_option (use_runaway this) \<union> set_option (use_banish this)"
    by (cases s) (auto simp add: prepare_macro_def split: option.split)
  from a b c show ?thesis by blast
qed

theorem C8_banish_or_abort_witness:
  "prepare_macro env_club (new_BuiltCombatStrategy env_club fresh [] None None)
      (Strat Banish) (Some goblin) = [MAbort]
   \<and> prepare_macro env_club (new_BuiltCombatStrategy env_club fresh [] (Some banish_louder) None)
      (Strat Banish) (Some goblin) = [MItem ''Louder Than Bomb'']
   \<and> prepare_macro env_club (new_BuiltCombatStrategy env_club fresh [] (Some banish_snokebomb) None)
      (Strat Banish) (Some goblin) = [MSkill ''Snokebomb'']"
  using C8_banish_or_abort [of env_club fresh "[]" None "Some goblin" banish_louder no_resources Banish]
        C8_banish_or_abort [of env_club fresh "[]" None "Some goblin" banish_snokebomb no_resources Banish]
  by (simp add: banish_louder_def banish_snokebomb_def)

subsection \<open>Wanderers\<close>

text \<open>
  Claim C10. The constructor puts one block per wanderer at the front of the macro, and
  the body of each block is \<^verbatim>\<open>prepare_macro(KillHard)\<close> called without a monster: the
  debuff prefix followed by the repeated Saucegeyser when the type of the equipped weapon
  is not muscle, and by the repeated Lunging Thrust-Smack when it is, whatever the
  physical resistance of the wanderer.
\<close>

theorem C10_wanderer_blocks:
  "take (length ws) (macro (new_BuiltCombatStrategy e a ws b r))
     = map (\<lambda>w. MIf (wanderer_monster w) (prepare_macro e (special_macros b r) (Strat KillHard) None)) ws
   \<and> prepare_macro e (special_macros b r) (Strat KillHard) None
     = delevel @
       [MSkill (if weaponType e (equippedItem_Weapon e) \<noteq> Muscle
                then ''Saucegeyser'' else ''Lunging Thrust-Smack''),
        MRepeat]"
  by (simp add: built_macro prepare_macro_def)

theorem C10_wanderer_blocks_witness:
  "physicalResistance (wanderer_monster wander_ghost) \<ge> 70
   \<and> macro (new_BuiltCombatStrategy env_club fresh [wander_ghost, wander_goblin] None None)
     = [MIf ghost (delevel @ [MSkill ''Lunging Thrust-Smack'', MRepeat]),
        MIf goblin (delevel @ [MSkill ''Lunging Thrust-Smack'', MRepeat]),
        MRunaway, MSkill ''Saucestorm'', MAttack, MRepeat]
   \<and> take 2 (macro (new_BuiltCombatStrategy env_staff fresh [wander_ghost, wander_goblin] None None))
     = [MIf ghost (delevel @ [MSkill ''Saucegeyser'', MRepeat]),
        MIf goblin (delevel @ [MSkill ''Saucegeyser'', MRepeat])]"
proof -
  have m: "macro (new_BuiltCombatStrategy env_club fresh [wander_ghost, wander_goblin] None None)
     = [MIf ghost (delevel @ [MSkill ''Lunging Thrust-Smack'', MRepeat]),
        MIf goblin (delevel @ [MSkill ''Lunging Thrust-Smack'', MRepeat]),
        MRunaway, MSkill ''Saucestorm'', MAttack, MRepeat]"
    by (simp add: built_macro prepare_macro_def fresh_def new_CombatStrategy_def
          wander_ghost_def wander_goblin_def env_club_def special_macros_def)
  have g: "physicalResistance (wanderer_monster wander_ghost) \<ge> 70"
    by (simp add: wander_ghost_def ghost_def)
  have t: "take 2 (macro (new_BuiltCombatStrategy env_staff fresh [wander_ghost, wander_goblin] None None))
     = [MIf ghost (delevel @ [MSkill ''Saucegeyser'', MRepeat]),
        MIf goblin (delevel @ [MSkill ''Saucegeyser'', MRepeat])]"
    using C10_wanderer_blocks [of "[wander_ghost, wander_goblin]" env_staff fresh None None]
    by (simp add: numeral_2_eq_2 wander_ghost_def wander_goblin_def env_staff_def env_club_def)
  from g m t show ?thesis by simp
qed

subsection \<open>Passes of the assembled macro\<close>

text \<open>
  A pass over the blocks of a \<^verbatim>\<open>Map\<close>, followed by more steps, selects the first block
  whose key is the opponent, which is the block of the entry that a lookup of the
  opponent finds; without such a block it goes on with the steps that follow. The blocks
  of wanderers that are not the opponent are skipped.
\<close>

lemma run_blocks:
  "run f (map (\<lambda>(k, v). MIf k (g k v)) al @ rest)
     = (case map_of al (opponent f) of
          None \<Rightarrow> run f rest
        | Some v \<Rightarrow> run f (g (opponent f) v))"
proof (induction al)
  case Nil
  show ?case by simp
next
  case (Cons p al)
  obtain k v where p: "p = (k, v)" by (cases p)
  show ?case
  proof (cases "k = opponent f")
    case True
    with p show ?thesis by simp
  next
    case False
    with Cons.IH p show ?thesis by simp
  qed
qed

lemma run_wanderers_skip:
  "opponent f \<notin> wanderer_monster ` set ws \<Longrightarrow>
   run f (map (\<lambda>w. MIf (wanderer_monster w) body) ws @ rest) = run f rest"
  by (induction ws) auto

text \<open>
  Claim C1, as stated: for every table in which a monster has both a macro in
  \<^verbatim>\<open>macros\<close> and a strategy in \<^verbatim>\<open>strategy\<close>, the assembled macro selects that macro
  when the monster is the opponent. This fails when the monster is also the monster of a
  wanderer: the constructor puts the blocks of the wanderers in front of the blocks of
  \<^verbatim>\<open>macros\<close>, so the first block for the monster is the wanderer's forced
  \<^verbatim>\<open>KillHard\<close>. For the table
  \<^verbatim>\<open>new CombatStrategy().item(seal tooth, goblin).kill(goblin)\<close> and the goblin as a
  wanderer, the pass against the goblin is the one of the wanderer's block and not the one
  of the seal tooth macro.
\<close>

theorem C1_counterexample:
  "map_of (macros table_tooth) goblin = Some [MItem ''seal tooth'']
   \<and> map_of (strategy table_tooth) goblin = Some Kill
   \<and> hd (macro (new_BuiltCombatStrategy env_club table_tooth [wander_goblin] None None))
       = MIf goblin (delevel @ [MSkill ''Lunging Thrust-Smack'', MRepeat])
   \<and> run (bare_fight goblin)
         (macro (new_BuiltCombatStrategy env_club table_tooth [wander_goblin] None None))
       = ([MSkill ''Curse of Weaksauce'', MSkill ''Lunging Thrust-Smack''], Repeats)
   \<and> run (bare_fight goblin) [MItem ''seal tooth''] = ([MItem ''seal tooth''], Finished)
   \<and> run (bare_fight goblin)
         (macro (new_BuiltCombatStrategy env_club table_tooth [wander_goblin] None None))
       \<noteq> run (bare_fight goblin) [MItem ''seal tooth'']"
proof -
  have m: "macros table_tooth = [(goblin, [MItem ''seal tooth''])]"
    by (simp add: table_tooth_def kill_def item_cs_def macro_cs_def apply_cs_def fresh_def
          new_CombatStrategy_def)
  have s: "strategy table_tooth = [(goblin, Kill)]"
    by (simp add: table_tooth_def kill_def item_cs_def macro_cs_def apply_cs_def fresh_def
          new_CombatStrategy_def)
  have h: "prepare_macro env_club (special_macros None None) (Strat KillHard) None
      = delevel @ [MSkill ''Lunging Thrust-Smack'', MRepeat]"
    by (simp add: prepare_macro_def env_club_def)
  have o: "opponent (bare_fight goblin) = goblin"
    "hasskill (bare_fight goblin) = (\<lambda>s. False)" "hascombatitem (bare_fight goblin) = (\<lambda>s. False)"
    by (simp_all add: bare_fight_def)
  have 1: "hd (macro (new_BuiltCombatStrategy env_club table_tooth [wander_goblin] None None))
       = MIf goblin (delevel @ [MSkill ''Lunging Thrust-Smack'', MRepeat])"
    by (simp add: built_macro h wander_goblin_def)
  have 2: "run (bare_fight goblin)
         (macro (new_BuiltCombatStrategy env_club table_tooth [wander_goblin] None None))
       = ([MSkill ''Curse of Weaksauce'', MSkill ''Lunging Thrust-Smack''], Repeats)"
    by (simp add: built_macro h o delevel_def emit_def wander_goblin_def)
  have 3: "run (bare_fight goblin) [MItem ''seal tooth''] = ([MItem ''seal tooth''], Finished)"
    by (simp add: emit_def)
  from m s 1 2 3 show ?thesis by simp
qed

text \<open>
  Claim C1, amended. For every table in which a monster has the macro \<open>p\<close> in
  \<^verbatim>\<open>macros\<close> and a strategy \<open>s\<close> in \<^verbatim>\<open>strategy\<close>, and every list of wanderers that does
  not hold the monster: the assembled macro selects \<open>p\<close> when the monster is the opponent,
  that is, the pass against the monster is the pass over \<open>p\<close> and never reaches the macro
  compiled from \<open>s\<close>; and the block of \<open>p\<close> stands before the block of the macro compiled
  from \<open>s\<close> in the assembled macro, so that the entries of \<^verbatim>\<open>macros\<close> have the higher
  priority.
\<close>

theorem C1_macro_before_strategy:
  assumes "map_of (macros a) m = Some p"
    and "map_of (strategy a) m = Some s"
    and "m \<notin> wanderer_monster ` set ws"
    and "opponent f = m"
  shows "run f (macro (new_BuiltCombatStrategy e a ws b r)) = run f p
         \<and> (\<exists>front middle back.
               macro (new_BuiltCombatStrategy e a ws b r)
                 = front @ [MIf m p] @ middle
                     @ [MIf m (prepare_macro e (special_macros b r) (Strat s) (Some m))] @ back)"
proof
  let ?W = "map (\<lambda>w. MIf (wanderer_monster w)
                (prepare_macro e (special_macros b r) (Strat KillHard) None)) ws"
  let ?D = "(case default_macro a of None \<Rightarrow> [] | Some d \<Rightarrow> d)
         @ prepare_macro e (special_macros b r) (Strat (default_strategy a)) None"
  let ?S = "map (\<lambda>(mon, strat).
            MIf mon (prepare_macro e (special_macros b r) (Strat strat) (Some mon))) (strategy a)"
  have "run f (macro (new_BuiltCombatStrategy e a ws b r))
      = run f (map (\<lambda>(key, value). MIf key value) (macros a) @ ?S @ ?D)"
    using assms(3,4) by (simp add: built_macro run_wanderers_skip)
  also have "\<dots> = run f p"
    using run_blocks [of f "\<lambda>k v. v" "macros a" "?S @ ?D"] assms(1,4) by simp
  finally show "run f (macro (new_BuiltCombatStrategy e a ws b r)) = run f p" .
  from assms(1) have "(m, p) \<in> set (macros a)" by (rule map_of_SomeD)
  then obtain m1 m2 where m12: "macros a = m1 @ (m, p) # m2"
    by (auto simp add: in_set_conv_decomp)
  from assms(2) have "(m, s) \<in> set (strategy a)" by (rule map_of_SomeD)
  then obtain s1 s2 where s12: "strategy a = s1 @ (m, s) # s2"
    by (auto simp add: in_set_conv_decomp)
  have "macro (new_BuiltCombatStrategy e a ws b r)
      = (?W @ map (\<lambda>(key, value). MIf key value) m1) @ [MIf m p]
        @ (map (\<lambda>(key, value). MIf key value) m2
           @ map (\<lambda>(mon, strat).
               MIf mon (prepare_macro e (special_macros b r) (Strat strat) (Some mon))) s1)
        @ [MIf m (prepare_macro e (special_macros b r) (Strat s) (Some m))]
        @ (map (\<lambda>(mon, strat).
               MIf mon (prepare_macro e (special_macros b r) (Strat strat) (Some mon))) s2 @ ?D)"
    by (simp add: built_macro m12 s12)
  then show "\<exists>front middle back.
           macro (new_BuiltCombatStrategy e a ws b r)
             = front @ [MIf m p] @ middle
                 @ [MIf m (prepare_macro e (special_macros b r) (Strat s) (Some m))] @ back"
    by blast
qed

theorem C1_macro_before_strategy_witness:
  "map_of (macros table_tooth) goblin = Some [MItem ''seal tooth'']
   \<and> map_of (strategy table_tooth) goblin = Some Kill
   \<and> goblin \<notin> wanderer_monster ` set [wander_ghost]
   \<and> opponent (bare_fight goblin) = goblin
   \<and> run (bare_fight goblin)
         (macro (new_BuiltCombatStrategy env_club table_tooth [wander_ghost] None None))
       = ([MItem ''seal tooth''], Finished)
   \<and> run (bare_fight goblin) (prepare_macro env_club no_resources (Strat Kill) (Some goblin))
       = ([MSkill ''Curse of Weaksauce'', MAttack], Repeats)"
proof -
  have m: "macros table_tooth = [(goblin, [MItem ''seal tooth''])]"
    by (simp add: table_tooth_def kill_def item_cs_def macro_cs_def apply_cs_def fresh_def
          new_CombatStrategy_def)
  have s: "strategy table_tooth = [(goblin, Kill)]"
    by (simp add: table_tooth_def kill_def item_cs_def macro_cs_def apply_cs_def fresh_def
          new_CombatStrategy_def)
  have mm: "map_of (macros table_tooth) goblin = Some [MItem ''seal tooth'']"
    by (simp add: m)
  have ms: "map_of (strategy table_tooth) goblin = Some Kill"
    by (simp add: s)
  have g: "goblin \<notin> wanderer_monster ` set [wander_ghost]"
    by (simp add: wander_ghost_def goblin_def ghost_def)
  have o: "opponent (bare_fight goblin) = goblin"
    by (simp add: bare_fight_def)
  have k: "run (bare_fight goblin) (prepare_macro env_club no_resources (Strat Kill) (Some goblin))
       = ([MSkill ''Curse of Weaksauce'', MAttack], Repeats)"
    by (simp add: prepare_macro_def env_club_def goblin_def delevel_def emit_def bare_fight_def)
  from C1_macro_before_strategy [OF mm ms g o, of env_club None None]
  have "run (bare_fight goblin)
         (macro (new_BuiltCombatStrategy env_club table_tooth [wander_ghost] None None))
       = ([MItem ''seal tooth''], Finished)"
    by (simp add: emit_def)
  with mm ms g o k show ?thesis by blast
qed

text \<open>
  Claim C2. For every strategy object and every monster, \<^verbatim>\<open>handle_monster(m, Abort)\<close>
  puts a block for the monster, whose body only aborts, in front of the whole macro, so
  that a pass against the monster aborts at once whatever blocks the macro held for it.
  Two calls in a row leave the block of the second call first, the block of the first
  call second, and the earlier macro after them.
\<close>

theorem C2_handle_monster_abort:
  "macro (handle_monster e m (Strat Abort) this) = MIf m [MAbort] # macro this
   \<and> run (f\<lparr>opponent := m\<rparr>) (macro (handle_monster e m (Strat Abort) this)) = ([], Aborts)
   \<and> macro (handle_monster e m2 s2 (handle_monster e m1 s1 this))
       = MIf m2 (prepare_macro e this s2 (Some m2))
         # MIf m1 (prepare_macro e this s1 (Some m1))
         # macro this"
proof -
  have u: "handle_monster e m1 s1 this
      = this\<lparr>macro := MIf m1 (prepare_macro e this s1 (Some m1)) # macro this\<rparr>" for m1 s1 this
    by (simp add: handle_monster_def step_def if_then_def)
  have a: "prepare_macro e this (Strat Abort) (Some m) = [MAbort]"
    by (simp add: prepare_macro_def)
  show ?thesis
    by (simp add: u a)
qed

theorem C2_handle_monster_abort_witness:
  "run (bare_fight goblin) (macro built_tooth)
     = ([MSkill ''Curse of Weaksauce'', MSkill ''Lunging Thrust-Smack''], Repeats)
   \<and> run (bare_fight goblin) (macro (handle_monster env_club goblin (Strat Abort) built_tooth))
       = ([], Aborts)
   \<and> take 2 (macro (handle_monster env_club ghost (Strat Kill)
                 (handle_monster env_club goblin (Strat Abort) built_tooth)))
       = [MIf ghost (delevel @ [MSkill ''Saucegeyser'', MRepeat]), MIf goblin [MAbort]]"
proof -
  have m: "macros table_tooth = [(goblin, [MItem ''seal tooth''])]"
    by (simp add: table_tooth_def kill_def item_cs_def macro_cs_def apply_cs_def fresh_def
          new_CombatStrategy_def)
  have s: "strategy table_tooth = [(goblin, Kill)]"
    by (simp add: table_tooth_def kill_def item_cs_def macro_cs_def apply_cs_def fresh_def
          new_CombatStrategy_def)
  have d: "default_macro table_tooth = None" "default_strategy table_tooth = RunAway"
    by (simp_all add: table_tooth_def kill_def item_cs_def macro_cs_def apply_cs_def fresh_def
          new_CombatStrategy_def)
  have k: "prepare_macro env_club (special_macros None None) (Strat Kill) (Some goblin)
      = delevel @ [MAttack, MRepeat]"
    by (simp add: prepare_macro_def env_club_def goblin_def)
  have h: "prepare_macro env_club (special_macros None None) (Strat KillHard) None
      = delevel @ [MSkill ''Lunging Thrust-Smack'', MRepeat]"
    by (simp add: prepare_macro_def env_club_def)
  have o: "opponent (bare_fight goblin) = goblin"
    "hasskill (bare_fight goblin) = (\<lambda>s. False)" "hascombatitem (bare_fight goblin) = (\<lambda>s. False)"
    "(bare_fight goblin)\<lparr>opponent := goblin\<rparr> = bare_fight goblin"
    by (simp_all add: bare_fight_def)
  have 1: "run (bare_fight goblin) (macro built_tooth)
     = ([MSkill ''Curse of Weaksauce'', MSkill ''Lunging Thrust-Smack''], Repeats)"
    by (simp add: built_tooth_def built_macro m s d k h o delevel_def emit_def
          wander_goblin_def)
  have 2: "run (bare_fight goblin) (macro (handle_monster env_club goblin (Strat Abort) built_tooth))
       = ([], Aborts)"
    using C2_handle_monster_abort [of env_club goblin built_tooth "bare_fight goblin"]
    by (simp add: o)
  have g: "prepare_macro env_club built_tooth (Strat Kill) (Some ghost)
      = delevel @ [MSkill ''Saucegeyser'', MRepeat]"
    by (simp add: prepare_macro_def env_club_def ghost_def)
  have a: "prepare_macro env_club built_tooth (Strat Abort) (Some goblin) = [MAbort]"
    by (simp add: prepare_macro_def)
  have 3: "take 2 (macro (handle_monster env_club ghost (Strat Kill)
                 (handle_monster env_club goblin (Strat Abort) built_tooth)))
       = [MIf ghost (delevel @ [MSkill ''Saucegeyser'', MRepeat]), MIf goblin [MAbort]]"
    using C2_handle_monster_abort [of env_club goblin built_tooth "bare_fight goblin"
        ghost "Strat Kill" goblin "Strat Abort"]
    by (simp add: g a numeral_2_eq_2)
  from 1 2 3 show ?thesis by simp
qed

subsection \<open>The table\<close>

text \<open>
  The table of the constructor has unique keys, and \<^verbatim>\<open>apply\<close>, \<^verbatim>\<open>macro\<close> and the
  methods defined through them keep the keys unique.
\<close>

lemma fold_set_strategy:
  "fold (\<lambda>mon t. t\<lparr>strategy := AList.update mon s (strategy t)\<rparr>) ms t
   = t\<lparr>strategy := fold (\<lambda>mon al. AList.update mon s al) ms (strategy t)\<rparr>"
  by (induction ms arbitrary: t) simp_all

lemma fold_set_macros:
  "fold (\<lambda>mon t. t\<lparr>macros := AList.update mon m (macros t)\<rparr>) ms t
   = t\<lparr>macros := fold (\<lambda>mon al. AList.update mon m al) ms (macros t)\<rparr>"
  by (induction ms arbitrary: t) simp_all

lemma distinct_fold_update:
  "distinct (map fst al) \<Longrightarrow> distinct (map fst (fold (\<lambda>k al. AList.update k v al) ks al))"
  by (induction ks arbitrary: al) (simp_all add: distinct_update)

lemma unique_keys_new: "unique_keys (new_CombatStrategy b)"
  by (simp add: unique_keys_def new_CombatStrategy_def)

lemma unique_keys_apply_cs: "unique_keys t \<Longrightarrow> unique_keys (apply_cs s ms t)"
  by (simp add: unique_keys_def apply_cs_def fold_set_strategy distinct_fold_update)

lemma unique_keys_macro_cs: "unique_keys t \<Longrightarrow> unique_keys (macro_cs m ms t)"
  by (simp add: unique_keys_def macro_cs_def fold_set_macros distinct_fold_update)

lemma unique_keys_banish: "unique_keys t \<Longrightarrow> unique_keys (snd (banish ms t))"
  by (simp add: banish_def unique_keys_apply_cs)

text \<open>
  Claim C7. \<^verbatim>\<open>banish()\<close> without a monster throws and leaves the table as it was.
  \<^verbatim>\<open>banish(m1, m2)\<close> does not throw and maps both monsters to \<^verbatim>\<open>Banish\<close> in
  \<^verbatim>\<open>strategy\<close>; every other entry of \<^verbatim>\<open>strategy\<close>, the whole of \<^verbatim>\<open>macros\<close>, the
  default strategy, the default macro and the boss flag stay as they were.
\<close>

theorem C7_banish:
  "banish [] t = (Some (Thrown ''Must specify list of monsters to banish''), t)
   \<and> fst (banish [m1, m2] t) = None
   \<and> map_of (strategy (snd (banish [m1, m2] t)))
       = (map_of (strategy t))(m1 \<mapsto> Banish, m2 \<mapsto> Banish)
   \<and> macros (snd (banish [m1, m2] t)) = macros t
   \<and> default_strategy (snd (banish [m1, m2] t)) = default_strategy t
   \<and> default_macro (snd (banish [m1, m2] t)) = default_macro t
   \<and> boss (snd (banish [m1, m2] t)) = boss t"
  by (simp add: banish_def apply_cs_def update_conv')

theorem C7_banish_witness:
  "banish [] table_kills = (Some (Thrown ''Must specify list of monsters to banish''), table_kills)
   \<and> strategy table_kills = [(goblin, Kill), (ghost, Kill)]
   \<and> strategy (snd (banish [ghost, goblin] table_kills)) = [(goblin, Banish), (ghost, Banish)]
   \<and> map_of (strategy (snd (banish [ghost, goblin] table_kills)))
       = (map_of (strategy table_kills))(ghost \<mapsto> Banish, goblin \<mapsto> Banish)
   \<and> default_strategy (snd (banish [ghost, goblin] table_kills)) = Abort"
proof -
  have s: "strategy table_kills = [(goblin, Kill), (ghost, Kill)]"
    by (simp add: table_kills_def kill_def banish_def abort_def apply_cs_def fresh_def
          new_CombatStrategy_def goblin_def ghost_def)
  have d: "default_strategy table_kills = Abort"
    by (simp add: table_kills_def kill_def banish_def abort_def apply_cs_def fresh_def
          new_CombatStrategy_def)
  have b: "strategy (snd (banish [ghost, goblin] table_kills)) = [(goblin, Banish), (ghost, Banish)]"
    by (simp add: banish_def apply_cs_def s goblin_def ghost_def)
  from s d b show ?thesis
    using C7_banish [of table_kills ghost goblin] by simp
qed

text \<open>
  Claim C9. On the table of the constructor \<^verbatim>\<open>can(RunAway)\<close> is true. On every table
  \<^verbatim>\<open>can(i)\<close> is true exactly when \<open>i\<close> is the default strategy or a value of
  \<^verbatim>\<open>strategy\<close>, and, the keys being unique, \<^verbatim>\<open>where(i)\<close> lists without repetition
  exactly the monsters that \<^verbatim>\<open>strategy\<close> maps to \<open>i\<close>.
\<close>

theorem C9_can_where:
  "can RunAway (new_CombatStrategy b)
   \<and> (can i t \<longleftrightarrow> i = default_strategy t \<or> i \<in> snd ` set (strategy t))
   \<and> (unique_keys t \<longrightarrow>
        (can i t \<longleftrightarrow> i = default_strategy t \<or> i \<in> ran (map_of (strategy t)))
        \<and> set (where_cs i t) = {m. map_of (strategy t) m = Some i}
        \<and> distinct (where_cs i t))"
proof -
  have a: "can RunAway (new_CombatStrategy b)"
    by (simp add: can_def new_CombatStrategy_def)
  have c: "can i t \<longleftrightarrow> i = default_strategy t \<or> i \<in> snd ` set (strategy t)"
    by (auto simp add: can_def)
  have w: "set (where_cs i t) = {m. map_of (strategy t) m = Some i}"
    by (auto simp add: where_cs_def dest: map_of_SomeD intro: rev_image_eqI)
  have d: "distinct (where_cs i t)" if "unique_keys t"
    using that by (simp add: where_cs_def unique_keys_def)
  have r: "ran (map_of (strategy t)) = snd ` set (strategy t)" if "unique_keys t"
    using that by (simp add: unique_keys_def ran_distinct)
  from a c w d r show ?thesis by simp
qed

theorem C9_can_where_witness:
  "unique_keys table_kills
   \<and> can RunAway fresh
   \<and> can Kill table_kills \<and> can Abort table_kills \<and> \<not> can RunAway table_kills
   \<and> \<not> can Banish table_kills
   \<and> where_cs Kill table_kills = [goblin, ghost]
   \<and> set (where_cs Kill table_kills) = {m. map_of (strategy table_kills) m = Some Kill}"
proof -
  have s: "strategy table_kills = [(goblin, Kill), (ghost, Kill)]"
    by (simp add: table_kills_def kill_def banish_def abort_def apply_cs_def fresh_def
          new_CombatStrategy_def goblin_def ghost_def)
  have d: "default_strategy table_kills = Abort"
    by (simp add: table_kills_def kill_def banish_def abort_def apply_cs_def fresh_def
          new_CombatStrategy_def)
  have g: "goblin \<noteq> ghost"
    by (simp add: goblin_def ghost_def)
  have u: "unique_keys table_kills"
    using g by (simp add: unique_keys_def s table_kills_def kill_def banish_def abort_def
        apply_cs_def fresh_def new_CombatStrategy_def)
  have w: "where_cs Kill table_kills = [goblin, ghost]"
    using g by (simp add: where_cs_def s)
  have c: "can Kill table_kills \<and> can Abort table_kills \<and> \<not> can RunAway table_kills
      \<and> \<not> can Banish table_kills"
    using C9_can_where [of None Kill table_kills] C9_can_where [of None Abort table_kills]
          C9_can_where [of None RunAway table_kills] C9_can_where [of None Banish table_kills]
    by (simp add: s d)
  show ?thesis
    using u w c C9_can_where [of None Kill table_kills]
    by (simp add: fresh_def)
qed

end
